theory Spec2Isabelle
  imports Main "HOL-Library.AList"
begin

section \<open>JavaScript values and the object store\<close>

text \<open>
  The Box class of \<^verbatim>\<open>src/src/index.js\<close> works on ordinary JavaScript objects, which
  are shared by reference and mutated in place. The embedding therefore keeps an explicit
  store: a value is a primitive or a reference, and every object (plain object, array or
  class instance such as a Box) is a cell of the store holding its own enumerable
  properties in insertion order. An array is a cell of kind \<open>Array\<close> whose property names
  are its indices in decimal. Numbers are the integers; inherited properties (methods of
  prototypes) are not part of a cell.
\<close>

type_synonym addr = nat

datatype val = Undefined | Null | Bool bool | Num int | Str string | Ref addr

datatype okind = Plain | Array | Instance

record obj =
  kind :: okind
  props :: "(string \<times> val) list"

type_synonym heap = "obj list"

datatype error = InvalidPath | TypeError

definition emptyObj :: "okind \<Rightarrow> obj" where
  "emptyObj k = \<lparr>kind = k, props = []\<rparr>"

text \<open>An address outside the store reads as an empty object; the program never makes one.\<close>

definition objAt :: "heap \<Rightarrow> addr \<Rightarrow> obj" where
  "objAt h a = (if a < length h then h ! a else emptyObj Plain)"

definition alloc :: "heap \<Rightarrow> obj \<Rightarrow> heap \<times> addr" where
  "alloc h ob = (h @ [ob], length h)"

definition getProperty :: "heap \<Rightarrow> addr \<Rightarrow> string \<Rightarrow> val" where
  "getProperty h a k = (case map_of (props (objAt h a)) k of None \<Rightarrow> Undefined | Some v \<Rightarrow> v)"

definition setProperty :: "heap \<Rightarrow> addr \<Rightarrow> string \<Rightarrow> val \<Rightarrow> heap" where
  "setProperty h a k v =
     (if a < length h then h[a := (h ! a)\<lparr>props := AList.update k v (props (h ! a))\<rparr>] else h)"

definition deleteProperty :: "heap \<Rightarrow> addr \<Rightarrow> string \<Rightarrow> heap" where
  "deleteProperty h a k =
     (if a < length h then h[a := (h ! a)\<lparr>props := AList.delete k (props (h ! a))\<rparr>] else h)"

subsection \<open>Strings: decimal numerals, split and join\<close>

fun show_nat :: "nat \<Rightarrow> string" where
  "show_nat n =
     (if n < 10 then [''0123456789'' ! n]
      else show_nat (n div 10) @ [''0123456789'' ! (n mod 10)])"

declare show_nat.simps [simp del]

definition show_int :: "int \<Rightarrow> string" where
  "show_int i = (if i < 0 then CHR ''-'' # show_nat (nat (- i)) else show_nat (nat i))"

text \<open>\<^verbatim>\<open>s.split('.')\<close>: the empty string splits into one empty segment.\<close>

fun split_dot :: "string \<Rightarrow> string list" where
  "split_dot [] = [[]]"
| "split_dot (c # cs) =
     (if c = CHR ''.'' then [] # split_dot cs
      else (case split_dot cs of [] \<Rightarrow> [[c]] | w # ws \<Rightarrow> (c # w) # ws))"

fun join_with :: "string \<Rightarrow> string list \<Rightarrow> string" where
  "join_with sep [] = []"
| "join_with sep [x] = x"
| "join_with sep (x # y # ys) = x @ sep @ join_with sep (y # ys)"

text \<open>Own properties of a string primitive: its indices and \<^verbatim>\<open>length\<close>.\<close>

definition str_keys :: "string \<Rightarrow> string list" where
  "str_keys s = map show_nat [0..<length s] @ [''length'']"

definition str_prop :: "string \<Rightarrow> string \<Rightarrow> val" where
  "str_prop s k =
     (if k = ''length'' then Num (int (length s))
      else (case find (\<lambda>i. show_nat i = k) [0..<length s] of
              None \<Rightarrow> Undefined | Some i \<Rightarrow> Str [s ! i]))"

text \<open>
  \<^verbatim>\<open>parseInt(key).toString() === key\<close> (object-path's \<^verbatim>\<open>getKey\<close>): the key is the
  decimal numeral of an integer.
\<close>

definition is_canon_nat :: "string \<Rightarrow> bool" where
  "is_canon_nat s =
     (s = ''0'' \<or> (s \<noteq> [] \<and> list_all (\<lambda>c. c \<in> set ''0123456789'') s \<and> hd s \<noteq> CHR ''0''))"

definition is_int_key :: "string \<Rightarrow> bool" where
  "is_int_key s =
     (case s of [] \<Rightarrow> False
      | c # cs \<Rightarrow> if c = CHR ''-'' then is_canon_nat cs \<and> cs \<noteq> ''0'' else is_canon_nat s)"

subsection \<open>Property access on arbitrary values\<close>

text \<open>
  \<^verbatim>\<open>v.hasOwnProperty(k)\<close> and \<^verbatim>\<open>v[k]\<close> for a value that is not \<^verbatim>\<open>null\<close> or \<^verbatim>\<open>undefined\<close>
  (on those both throw, which the callers check with \<open>isNullish\<close>): an object has the
  properties of its cell, a string its indices and length, any other primitive none.
\<close>

definition hasOwn :: "heap \<Rightarrow> val \<Rightarrow> string \<Rightarrow> bool" where
  "hasOwn h v k =
     (case v of Ref a \<Rightarrow> k \<in> set (map fst (props (objAt h a)))
      | Str s \<Rightarrow> k \<in> set (str_keys s)
      | _ \<Rightarrow> False)"

definition readProp :: "heap \<Rightarrow> val \<Rightarrow> string \<Rightarrow> val" where
  "readProp h v k =
     (case v of Ref a \<Rightarrow> getProperty h a k | Str s \<Rightarrow> str_prop s k | _ \<Rightarrow> Undefined)"

text \<open>\<^verbatim>\<open>v[k] = x\<close> in strict code: only an object can be written to.\<close>

definition writeProp :: "heap \<Rightarrow> val \<Rightarrow> string \<Rightarrow> val \<Rightarrow> error + heap" where
  "writeProp h v k x = (case v of Ref a \<Rightarrow> Inr (setProperty h a k x) | _ \<Rightarrow> Inl TypeError)"

definition isNullish :: "val \<Rightarrow> bool" where
  "isNullish v = (v = Undefined \<or> v = Null)"

subsection \<open>What the program takes from outside\<close>

text \<open>
  The source imports \<^verbatim>\<open>deep-diff\<close>, \<^verbatim>\<open>extend\<close>, \<^verbatim>\<open>object-path\<close> and \<^verbatim>\<open>shortid\<close>, none of
  which is part of the repository. A change record of the structural differ has a kind
  (\<^verbatim>\<open>N\<close>, \<^verbatim>\<open>D\<close>, \<^verbatim>\<open>E\<close>, \<^verbatim>\<open>A\<close>), a path of keys and indices (empty at the root) and the
  values before and after; an array change carries an index and an item that is new or
  deleted.
\<close>

datatype pkey = PKey string | PIdx nat

datatype item = ItemNew val | ItemDeleted val

datatype change =
    DiffNew "pkey list" val
  | DiffDeleted "pkey list" val
  | DiffEdit "pkey list" val val
  | DiffArray "pkey list" nat item

text \<open>
  The differ itself (\<^verbatim>\<open>diff\<close> of deep-diff, which returns \<^verbatim>\<open>undefined\<close> for equal
  trees), the string an object converts to, and whether a string converts to the number
  zero are parameters of the embedding.
\<close>

record env =
  objToString :: "heap \<Rightarrow> addr \<Rightarrow> string"
  strIsZero :: "string \<Rightarrow> bool"
  differ :: "heap \<Rightarrow> val \<Rightarrow> val \<Rightarrow> change list option"

definition toBoolean :: "val \<Rightarrow> bool" where
  "toBoolean v =
     (case v of Undefined \<Rightarrow> False | Null \<Rightarrow> False | Bool b \<Rightarrow> b
      | Num n \<Rightarrow> n \<noteq> 0 | Str s \<Rightarrow> s \<noteq> [] | Ref a \<Rightarrow> True)"

definition toStr :: "env \<Rightarrow> heap \<Rightarrow> val \<Rightarrow> string" where
  "toStr e h v =
     (case v of Undefined \<Rightarrow> ''undefined'' | Null \<Rightarrow> ''null''
      | Bool b \<Rightarrow> (if b then ''true'' else ''false'')
      | Num n \<Rightarrow> show_int n | Str s \<Rightarrow> s | Ref a \<Rightarrow> objToString e h a)"

text \<open>\<^verbatim>\<open>v == false\<close>: the boolean becomes the number zero and is compared with \<open>v\<close>.\<close>

definition looseEqFalse :: "env \<Rightarrow> heap \<Rightarrow> val \<Rightarrow> bool" where
  "looseEqFalse e h v =
     (case v of Undefined \<Rightarrow> False | Null \<Rightarrow> False | Bool b \<Rightarrow> b = False
      | Num n \<Rightarrow> n = 0 | Str s \<Rightarrow> strIsZero e s | Ref a \<Rightarrow> strIsZero e (objToString e h a))"

text \<open>\<^verbatim>\<open>v == 'box'\<close>: the literal is not a numeral, so no number or boolean equals it.\<close>

definition looseEqBox :: "env \<Rightarrow> heap \<Rightarrow> val \<Rightarrow> bool" where
  "looseEqBox e h v =
     (case v of Str s \<Rightarrow> s = ''box'' | Ref a \<Rightarrow> objToString e h a = ''box'' | _ \<Rightarrow> False)"

text \<open>An element of \<^verbatim>\<open>Array.prototype.join\<close>: \<^verbatim>\<open>undefined\<close> and \<^verbatim>\<open>null\<close> give the empty string.\<close>

definition elemToString :: "env \<Rightarrow> heap \<Rightarrow> val \<Rightarrow> string" where
  "elemToString e h v = (if isNullish v then [] else toStr e h v)"

section \<open>The libraries the Box class calls\<close>

subsection \<open>\<^verbatim>\<open>extend\<close>: deep merge of one object into another\<close>

text \<open>
  The container a nested object is merged into: the target's own value when it is a
  container of the same kind, a fresh empty one otherwise.
\<close>

definition cloneTarget :: "heap \<Rightarrow> val \<Rightarrow> okind \<Rightarrow> heap \<times> addr" where
  "cloneTarget h src k =
     (case src of
        Ref a \<Rightarrow> if kind (objAt h a) = k then (h, a) else alloc h (emptyObj k)
      | _ \<Rightarrow> alloc h (emptyObj k))"

text \<open>
  Modelled from the spec: \<^verbatim>\<open>extend(true, target, source)\<close> of the package \<^verbatim>\<open>extend\<close>,
  which is not under \<^verbatim>\<open>src/\<close>; the spec calls it a deep merge into a container. For each
  enumerable property of the source: a value identical to the target is skipped; a plain
  object or array is merged recursively into the target's container of that name (or a
  fresh one) and the result stored; any other value but \<^verbatim>\<open>undefined\<close>, a class instance
  among them, is stored as it is. The first argument bounds the nesting depth of the
  recursion: on a cyclic source the JavaScript never returns, and the model gives \<open>None\<close>
  for every bound.
\<close>

fun extend_loop :: "nat \<Rightarrow> heap \<Rightarrow> addr \<Rightarrow> addr \<Rightarrow> string list \<Rightarrow> heap option" where
  "extend_loop n h t s [] = Some h"
| "extend_loop n h t s (name # names) =
     (case getProperty h s name of
        Ref c \<Rightarrow>
          if c = t then extend_loop n h t s names
          else if kind (objAt h c) = Instance
            then extend_loop n (setProperty h t name (Ref c)) t s names
          else (case n of
                  0 \<Rightarrow> None
                | Suc m \<Rightarrow>
                    (case cloneTarget h (getProperty h t name) (kind (objAt h c)) of
                       (h1, clone) \<Rightarrow>
                         (case extend_loop m h1 clone c (map fst (props (objAt h1 c))) of
                            None \<Rightarrow> None
                          | Some h2 \<Rightarrow>
                              extend_loop n (setProperty h2 t name (Ref clone)) t s names)))
      | Undefined \<Rightarrow> extend_loop n h t s names
      | copy \<Rightarrow> extend_loop n (setProperty h t name copy) t s names)"

text \<open>
  The entry point: a target that is not an object is replaced by a fresh \<^verbatim>\<open>{}\<close>, a source
  that is \<^verbatim>\<open>null\<close> contributes nothing, and the target is returned. (Both calls in the
  constructor pass a source that is an object or \<^verbatim>\<open>null\<close>.)
\<close>

definition extend_deep :: "nat \<Rightarrow> heap \<Rightarrow> val \<Rightarrow> val \<Rightarrow> (heap \<times> val) option" where
  "extend_deep n h target source =
     (case (case target of Ref a \<Rightarrow> (h, a) | _ \<Rightarrow> alloc h (emptyObj Plain)) of
        (h1, t) \<Rightarrow>
          (case source of
             Ref s \<Rightarrow>
               (case extend_loop n h1 t s (map fst (props (objAt h1 s))) of
                  None \<Rightarrow> None
                | Some h2 \<Rightarrow> Some (h2, Ref t))
           | _ \<Rightarrow> Some (h1, Ref t)))"

subsection \<open>\<^verbatim>\<open>object-path\<close>: access by dotted path\<close>

text \<open>The value of an own property, \<^verbatim>\<open>undefined\<close> when there is none.\<close>

definition getShallowProperty :: "heap \<Rightarrow> val \<Rightarrow> string \<Rightarrow> val" where
  "getShallowProperty h ob k = (if hasOwn h ob k then readProp h ob k else Undefined)"

fun get_segs :: "heap \<Rightarrow> val \<Rightarrow> string list \<Rightarrow> val" where
  "get_segs h ob [] = ob"
| "get_segs h ob (k # ks) =
     (if isNullish ob then Undefined
      else if getShallowProperty h ob k = Undefined then Undefined
      else if ks = [] then getShallowProperty h ob k
      else get_segs h (getShallowProperty h ob k) ks)"

text \<open>
  Modelled from the spec: \<^verbatim>\<open>objectPath.get(obj, path)\<close> of the package \<^verbatim>\<open>object-path\<close>,
  which is not under \<^verbatim>\<open>src/\<close>: the value at the dotted path, or \<^verbatim>\<open>undefined\<close> if absent.
  An empty path gives the object itself.
\<close>

definition objectPath_get :: "heap \<Rightarrow> val \<Rightarrow> string \<Rightarrow> val" where
  "objectPath_get h ob path =
     (if path = [] then ob
      else if isNullish ob then Undefined
      else get_segs h ob (split_dot path))"

fun has_segs :: "heap \<Rightarrow> val \<Rightarrow> string list \<Rightarrow> bool" where
  "has_segs h ob [] = True"
| "has_segs h ob (k # ks) = (if hasOwn h ob k then has_segs h (readProp h ob k) ks else False)"

text \<open>
  Modelled from the spec: \<^verbatim>\<open>objectPath.has(obj, path)\<close>, whether every segment of the
  path names an own property on the way down.
\<close>

definition objectPath_has :: "heap \<Rightarrow> val \<Rightarrow> string \<Rightarrow> bool" where
  "objectPath_has h ob path = has_segs h ob (split_dot path)"

fun set_segs :: "heap \<Rightarrow> val \<Rightarrow> string list \<Rightarrow> val \<Rightarrow> error + heap" where
  "set_segs h ob [] x = Inr h"
| "set_segs h ob [k] x = writeProp h ob k x"
| "set_segs h ob (k # k' # ks) x =
     (if getShallowProperty h ob k = Undefined then
        (case ob of
           Ref a \<Rightarrow>
             (case alloc h (emptyObj (if is_int_key k' then Array else Plain)) of
                (h1, c) \<Rightarrow> set_segs (setProperty h1 a k (Ref c)) (Ref c) (k' # ks) x)
         | _ \<Rightarrow> Inl TypeError)
      else set_segs h (getShallowProperty h ob k) (k' # ks) x)"

text \<open>
  Modelled from the spec: \<^verbatim>\<open>objectPath.set(obj, path, value)\<close>, which creates the
  intermediate containers as needed (an array before an integer key, an object before
  any other) and assigns the value. An empty path changes nothing.
\<close>

definition objectPath_set :: "heap \<Rightarrow> val \<Rightarrow> string \<Rightarrow> val \<Rightarrow> error + heap" where
  "objectPath_set h ob path x = (if path = [] then Inr h else set_segs h ob (split_dot path) x)"

definition digit_of :: "char \<Rightarrow> nat" where
  "digit_of c = (case find (\<lambda>i. ''0123456789'' ! i = c) [0..<10] of None \<Rightarrow> 0 | Some i \<Rightarrow> i)"

definition nat_of_key :: "string \<Rightarrow> nat option" where
  "nat_of_key k =
     (if is_canon_nat k then Some (foldl (\<lambda>n c. 10 * n + digit_of c) 0 k) else None)"

text \<open>Removing the element at an index of an array: the later elements move down by one.\<close>

definition array_remove :: "nat \<Rightarrow> (string \<times> val) list \<Rightarrow> (string \<times> val) list" where
  "array_remove i ps =
     map (\<lambda>(k, v). case nat_of_key k of
                      None \<Rightarrow> (k, v)
                    | Some j \<Rightarrow> if i < j then (show_nat (j - 1), v) else (k, v))
         (filter (\<lambda>(k, v). k \<noteq> show_nat i) ps)"

definition spliceAt :: "heap \<Rightarrow> addr \<Rightarrow> nat \<Rightarrow> heap" where
  "spliceAt h a i =
     (if a < length h then h[a := (h ! a)\<lparr>props := array_remove i (props (h ! a))\<rparr>] else h)"

fun del_segs :: "heap \<Rightarrow> val \<Rightarrow> string list \<Rightarrow> error + heap" where
  "del_segs h ob [] = Inr h"
| "del_segs h ob (k # ks) =
     (if isNullish ob then Inr h
      else if \<not> hasOwn h ob k then Inr h
      else if ks = [] then
        (case ob of
           Ref a \<Rightarrow>
             (case (if kind (objAt h a) = Array then nat_of_key k else None) of
                Some i \<Rightarrow> Inr (spliceAt h a i)
              | None \<Rightarrow> Inr (deleteProperty h a k))
         | _ \<Rightarrow> Inl TypeError)
      else del_segs h (readProp h ob k) ks)"

text \<open>
  Modelled from the spec: \<^verbatim>\<open>objectPath.del(obj, path)\<close>, which removes the entry at the
  path if it exists (an array element is spliced out) and does nothing otherwise.
\<close>

definition objectPath_del :: "heap \<Rightarrow> val \<Rightarrow> string \<Rightarrow> error + heap" where
  "objectPath_del h ob path =
     (if isNullish ob \<or> path = [] then Inr h else del_segs h ob (split_dot path))"

subsection \<open>\<^verbatim>\<open>deep-diff\<close>: applying one change record\<close>

text \<open>The property name a path element stands for, the path and the kind of a record.\<close>

definition keyStr :: "pkey \<Rightarrow> string" where
  "keyStr k = (case k of PKey s \<Rightarrow> s | PIdx i \<Rightarrow> show_nat i)"

definition changePath :: "change \<Rightarrow> pkey list" where
  "changePath c =
     (case c of DiffNew p _ \<Rightarrow> p | DiffDeleted p _ \<Rightarrow> p | DiffEdit p _ _ \<Rightarrow> p
      | DiffArray p _ _ \<Rightarrow> p)"

definition changeKind :: "change \<Rightarrow> string" where
  "changeKind c =
     (case c of DiffNew _ _ \<Rightarrow> ''N'' | DiffDeleted _ _ \<Rightarrow> ''D'' | DiffEdit _ _ _ \<Rightarrow> ''E''
      | DiffArray _ _ _ \<Rightarrow> ''A'')"

text \<open>Removing an element in place, which only an array supports.\<close>

definition arrayRemove :: "heap \<Rightarrow> val \<Rightarrow> nat \<Rightarrow> error + heap" where
  "arrayRemove h arr i =
     (case arr of
        Ref a \<Rightarrow> if kind (objAt h a) = Array then Inr (spliceAt h a i) else Inl TypeError
      | _ \<Rightarrow> Inl TypeError)"

definition applyArrayChange :: "heap \<Rightarrow> val \<Rightarrow> nat \<Rightarrow> item \<Rightarrow> error + heap" where
  "applyArrayChange h arr i it =
     (case it of
        ItemDeleted _ \<Rightarrow> arrayRemove h arr i
      | ItemNew rhs \<Rightarrow> writeProp h arr (show_nat i) rhs)"

text \<open>The record's action at the object \<open>it\<close> its path has led to, \<open>k\<close> being the last key.\<close>

definition applyLast :: "heap \<Rightarrow> val \<Rightarrow> pkey \<Rightarrow> change \<Rightarrow> error + heap" where
  "applyLast h it k c =
     (if isNullish it then Inl TypeError
      else (case c of
              DiffArray _ i itm \<Rightarrow> applyArrayChange h (readProp h it (keyStr k)) i itm
            | DiffDeleted _ _ \<Rightarrow>
                (case it of Ref a \<Rightarrow> Inr (deleteProperty h a (keyStr k)) | _ \<Rightarrow> Inr h)
            | DiffEdit _ _ rhs \<Rightarrow> writeProp h it (keyStr k) rhs
            | DiffNew _ rhs \<Rightarrow> writeProp h it (keyStr k) rhs))"

fun apply_at :: "heap \<Rightarrow> val \<Rightarrow> pkey list \<Rightarrow> change \<Rightarrow> error + heap" where
  "apply_at h it [] c =
     (case c of DiffArray _ i itm \<Rightarrow> applyArrayChange h it i itm | _ \<Rightarrow> Inl TypeError)"
| "apply_at h it [k] c = applyLast h it k c"
| "apply_at h it (k # k' # ks) c =
     (if isNullish it then Inl TypeError
      else if readProp h it (keyStr k) = Undefined then
        (case it of
           Ref a \<Rightarrow>
             (case alloc h (emptyObj (case k of PIdx _ \<Rightarrow> Array | PKey _ \<Rightarrow> Plain)) of
                (h1, c') \<Rightarrow> apply_at (setProperty h1 a (keyStr k) (Ref c')) (Ref c') (k' # ks) c)
         | _ \<Rightarrow> Inl TypeError)
      else apply_at h (readProp h it (keyStr k)) (k' # ks) c)"

text \<open>
  Modelled from the spec: \<^verbatim>\<open>applyChange(target, source, change)\<close> of the package
  \<^verbatim>\<open>deep-diff\<close>, which is not under \<^verbatim>\<open>src/\<close>: it realizes one change record on the target
  in place. It walks the path but for its last key, creating the containers that are
  missing, then sets the value (\<^verbatim>\<open>N\<close>, \<^verbatim>\<open>E\<close>), deletes the key (\<^verbatim>\<open>D\<close>) or changes the array
  (\<^verbatim>\<open>A\<close>). It does nothing when target or source is falsy; a record without a path that is
  not an array change makes it fail.
\<close>

definition applyChange :: "heap \<Rightarrow> val \<Rightarrow> val \<Rightarrow> change \<Rightarrow> error + heap" where
  "applyChange h target source c =
     (if toBoolean target \<and> toBoolean source then apply_at h target (changePath c) c
      else Inr h)"

section \<open>The class \<^verbatim>\<open>Box\<close>\<close>

text \<open>
  A Box is a class instance in the store with the fields the constructor assigns:
  \<^verbatim>\<open>__type__\<close>, \<^verbatim>\<open>_seq\<close>, \<^verbatim>\<open>_error\<close>, \<^verbatim>\<open>_payload\<close>, \<^verbatim>\<open>_tags\<close>, \<^verbatim>\<open>_results\<close>. Every method
  takes the store and the address \<open>this\<close> of its Box; a method that mutates returns the
  new store, and a method that can throw returns a sum.
\<close>

definition boxFields :: "string \<Rightarrow> val \<Rightarrow> val \<Rightarrow> (string \<times> val) list" where
  "boxFields sid content tags =
     [(''__type__'', Str ''box''), (''_seq'', Str sid), (''_error'', Null),
      (''_payload'', content), (''_tags'', tags), (''_results'', Null)]"

text \<open>\<^verbatim>\<open>static isBox(object)\<close>, lines 55-57.\<close>

definition isBox :: "env \<Rightarrow> heap \<Rightarrow> val \<Rightarrow> bool" where
  "isBox e h object =
     (case object of Ref a \<Rightarrow> looseEqBox e h (getProperty h a ''__type__'') | _ \<Rightarrow> False)"

text \<open>\<^verbatim>\<open>typeof content === 'object'\<close>: an object or \<^verbatim>\<open>null\<close>.\<close>

definition typeofObject :: "val \<Rightarrow> bool" where
  "typeofObject v = (case v of Null \<Rightarrow> True | Ref a \<Rightarrow> True | _ \<Rightarrow> False)"

text \<open>
  \<^verbatim>\<open>constructor(content, tags = {})\<close>, lines 27-45. \<open>sid\<close> is the identifier that
  \<^verbatim>\<open>shortid.generate()\<close> returns, \<open>n\<close> the depth bound of \<open>extend_loop\<close>; a \<open>tags\<close> argument
  that is \<^verbatim>\<open>undefined\<close> takes the default, a fresh empty object. The result is the new
  store and the address of the new Box.
\<close>

definition newBox :: "env \<Rightarrow> string \<Rightarrow> nat \<Rightarrow> heap \<Rightarrow> val \<Rightarrow> val \<Rightarrow> (heap \<times> addr) option" where
  "newBox e sid n h content tags =
     (case alloc h (emptyObj Instance) of
        (h0, this) \<Rightarrow>
          (case (if tags = Undefined
                 then (case alloc h0 (emptyObj Plain) of (h', a) \<Rightarrow> (h', Ref a))
                 else (h0, tags)) of
             (h1, tagsv) \<Rightarrow>
               (case h1[this := \<lparr>kind = Instance, props = boxFields sid content tagsv\<rparr>] of
                  h2 \<Rightarrow>
                    if isBox e h2 content then
                      (case extend_deep n h2 (Ref this) content of
                         None \<Rightarrow> None
                       | Some (h3, r) \<Rightarrow> Some (h3, this))
                    else if typeofObject content then
                      (case extend_deep n h2 (getProperty h2 this ''_payload'') content of
                         None \<Rightarrow> None
                       | Some (h3, r) \<Rightarrow> Some (h3, this))
                    else
                      (case alloc h2 \<lparr>kind = Plain, props = [(''_v'', content)]\<rparr> of
                         (h3, p) \<Rightarrow> Some (setProperty h3 this ''_payload'' (Ref p), this)))))"

text \<open>\<^verbatim>\<open>payload()\<close>, lines 79-81.\<close>

definition payload :: "heap \<Rightarrow> addr \<Rightarrow> val" where
  "payload h this = getProperty h this ''_payload''"

text \<open>
  \<^verbatim>\<open>getTag(name)\<close>, lines 216-218: \<^verbatim>\<open>this._tags.hasOwnProperty(name) ? this._tags[name] : null\<close>;
  it throws when \<^verbatim>\<open>_tags\<close> is \<^verbatim>\<open>null\<close> or \<^verbatim>\<open>undefined\<close>.
\<close>

definition getTag :: "heap \<Rightarrow> addr \<Rightarrow> string \<Rightarrow> error + val" where
  "getTag h this name =
     (case getProperty h this ''_tags'' of
        tags \<Rightarrow>
          if isNullish tags then Inl TypeError
          else if hasOwn h tags name then Inr (readProp h tags name)
          else Inr Null)"

text \<open>\<^verbatim>\<open>hasTag(name)\<close>, lines 203-209.\<close>

definition hasTag :: "heap \<Rightarrow> addr \<Rightarrow> string \<Rightarrow> error + bool" where
  "hasTag h this name =
     (case getProperty h this ''_tags'' of
        tags \<Rightarrow> if isNullish tags then Inl TypeError else Inr (hasOwn h tags name))"

text \<open>\<^verbatim>\<open>getGlossaryTag()\<close>, lines 304-306, and \<^verbatim>\<open>getScopeTag()\<close>, lines 320-322.\<close>

definition getGlossaryTag :: "heap \<Rightarrow> addr \<Rightarrow> error + val" where
  "getGlossaryTag h this = getTag h this ''glossary''"

definition getScopeTag :: "heap \<Rightarrow> addr \<Rightarrow> error + val" where
  "getScopeTag h this = getTag h this ''scope''"

subsection \<open>Path resolution\<close>

text \<open>
  A path argument: any primitive, or an array of string segments. The documented paths
  are the strings and the arrays.
\<close>

datatype patharg =
    PUndefined | PNull | PBool bool | PNum int | PStr string | PArr "string list"

definition pathTruthy :: "patharg \<Rightarrow> bool" where
  "pathTruthy p =
     (case p of PUndefined \<Rightarrow> False | PNull \<Rightarrow> False | PBool b \<Rightarrow> b | PNum n \<Rightarrow> n \<noteq> 0
      | PStr s \<Rightarrow> s \<noteq> [] | PArr ks \<Rightarrow> True)"

text \<open>The string a path converts to in \<^verbatim>\<open>scope + "." + path\<close>; an array joins with commas.\<close>

definition pathToString :: "patharg \<Rightarrow> string" where
  "pathToString p =
     (case p of PUndefined \<Rightarrow> ''undefined'' | PNull \<Rightarrow> ''null''
      | PBool b \<Rightarrow> (if b then ''true'' else ''false'') | PNum n \<Rightarrow> show_int n
      | PStr s \<Rightarrow> s | PArr ks \<Rightarrow> join_with '','' ks)"

text \<open>
  The loop of \<^verbatim>\<open>pathMap\<close>, lines 152-159. \<open>pre\<close> holds the segments already visited, so
  that \<open>pre @ [k]\<close> is \<^verbatim>\<open>keys.slice(0, i + 1)\<close>; the loop tests the glossary for the joined
  prefix and, when it is a key, pushes \<^verbatim>\<open>glossary[keys[i]]\<close>.
\<close>

fun pathMap_loop :: "heap \<Rightarrow> val \<Rightarrow> string list \<Rightarrow> string list \<Rightarrow> val list" where
  "pathMap_loop h glossary pre [] = []"
| "pathMap_loop h glossary pre (k # ks) =
     (if \<not> toBoolean glossary then Str k
      else if \<not> hasOwn h glossary (join_with ''.'' (pre @ [k])) then Str k
      else readProp h glossary k)
     # pathMap_loop h glossary (pre @ [k]) ks"

text \<open>
  \<^verbatim>\<open>pathMap(path)\<close>, lines 143-168. A path that is neither an array nor a string has no
  \<^verbatim>\<open>split\<close>, which throws. The debug print of lines 161-165 has no effect on the result.
\<close>

definition pathMap :: "env \<Rightarrow> heap \<Rightarrow> addr \<Rightarrow> patharg \<Rightarrow> error + string" where
  "pathMap e h this path =
     (case (case path of PArr ks \<Rightarrow> Inr ks | PStr s \<Rightarrow> Inr (split_dot s) | _ \<Rightarrow> Inl TypeError) of
        Inl er \<Rightarrow> Inl er
      | Inr keys \<Rightarrow>
          (case getGlossaryTag h this of
             Inl er \<Rightarrow> Inl er
           | Inr glossary \<Rightarrow>
               Inr (join_with ''.'' (map (elemToString e h) (pathMap_loop h glossary [] keys)))))"

text \<open>
  The first two lines of each accessor: \<^verbatim>\<open>var scope = this.getTag('scope');
  if (scope) path = scope + "." + path;\<close>
\<close>

definition scoped :: "env \<Rightarrow> heap \<Rightarrow> addr \<Rightarrow> patharg \<Rightarrow> error + patharg" where
  "scoped e h this path =
     (case getTag h this ''scope'' of
        Inl er \<Rightarrow> Inl er
      | Inr scope \<Rightarrow>
          Inr (if toBoolean scope then PStr (toStr e h scope @ ''.'' @ pathToString path)
               else path))"

definition resolve :: "env \<Rightarrow> heap \<Rightarrow> addr \<Rightarrow> patharg \<Rightarrow> error + string" where
  "resolve e h this path =
     (case scoped e h this path of Inl er \<Rightarrow> Inl er | Inr p \<Rightarrow> pathMap e h this p)"

subsection \<open>Accessors\<close>

text \<open>\<^verbatim>\<open>set(path, value)\<close>, lines 89-96.\<close>

definition set_box :: "env \<Rightarrow> heap \<Rightarrow> addr \<Rightarrow> patharg \<Rightarrow> val \<Rightarrow> error + heap" where
  "set_box e h this path x =
     (case resolve e h this path of
        Inl er \<Rightarrow> Inl er
      | Inr p \<Rightarrow> objectPath_set h (getProperty h this ''_payload'') p x)"

text \<open>\<^verbatim>\<open>get(path)\<close>, lines 103-112.\<close>

definition get :: "env \<Rightarrow> heap \<Rightarrow> addr \<Rightarrow> patharg \<Rightarrow> error + val" where
  "get e h this path =
     (if \<not> pathTruthy path then Inl InvalidPath
      else (case resolve e h this path of
              Inl er \<Rightarrow> Inl er
            | Inr p \<Rightarrow> Inr (objectPath_get h (getProperty h this ''_payload'') p)))"

text \<open>\<^verbatim>\<open>has(path)\<close>, lines 119-126: \<^verbatim>\<open>return !!v && v != false\<close>.\<close>

definition has :: "env \<Rightarrow> heap \<Rightarrow> addr \<Rightarrow> patharg \<Rightarrow> error + bool" where
  "has e h this path =
     (case resolve e h this path of
        Inl er \<Rightarrow> Inl er
      | Inr p \<Rightarrow>
          (case objectPath_get h (getProperty h this ''_payload'') p of
             v \<Rightarrow> Inr (toBoolean v \<and> \<not> looseEqFalse e h v)))"

text \<open>\<^verbatim>\<open>del(path)\<close>, lines 133-141.\<close>

definition del :: "env \<Rightarrow> heap \<Rightarrow> addr \<Rightarrow> patharg \<Rightarrow> error + heap" where
  "del e h this path =
     (case resolve e h this path of
        Inl er \<Rightarrow> Inl er
      | Inr p \<Rightarrow>
          if objectPath_has h (getProperty h this ''_payload'') p
          then objectPath_del h (getProperty h this ''_payload'') p
          else Inr h)"

subsection \<open>Tags\<close>

text \<open>The names a \<^verbatim>\<open>for (word in tag)\<close> loop visits.\<close>

definition forInKeys :: "heap \<Rightarrow> val \<Rightarrow> string list" where
  "forInKeys h v =
     (case v of Ref a \<Rightarrow> map fst (props (objAt h a))
      | Str s \<Rightarrow> map show_nat [0..<length s]
      | _ \<Rightarrow> [])"

text \<open>
  The loop of \<^verbatim>\<open>addTag\<close>, lines 181-185: an entry of the new glossary whose value is a key
  of the old glossary is overwritten, in place, by the old glossary's value for that key.
\<close>

fun addTag_loop :: "env \<Rightarrow> heap \<Rightarrow> val \<Rightarrow> val \<Rightarrow> string list \<Rightarrow> error + heap" where
  "addTag_loop e h glossary tag [] = Inr h"
| "addTag_loop e h glossary tag (word # ws) =
     (if hasOwn h glossary (toStr e h (readProp h tag word)) then
        (case writeProp h tag word (readProp h glossary (toStr e h (readProp h tag word))) of
           Inl er \<Rightarrow> Inl er
         | Inr h' \<Rightarrow> addTag_loop e h' glossary tag ws)
      else addTag_loop e h glossary tag ws)"

text \<open>\<^verbatim>\<open>this._tags[name] = tag\<close>.\<close>

definition storeTag :: "heap \<Rightarrow> addr \<Rightarrow> string \<Rightarrow> val \<Rightarrow> error + heap" where
  "storeTag h this name tag = writeProp h (getProperty h this ''_tags'') name tag"

text \<open>\<^verbatim>\<open>addTag(name, tag)\<close>, lines 175-192.\<close>

definition addTag :: "env \<Rightarrow> heap \<Rightarrow> addr \<Rightarrow> string \<Rightarrow> val \<Rightarrow> error + heap" where
  "addTag e h this name tag =
     (if name = ''glossary'' then
        (case getGlossaryTag h this of
           Inl er \<Rightarrow> Inl er
         | Inr glossary \<Rightarrow>
             if \<not> toBoolean glossary then storeTag h this name tag
             else (case addTag_loop e h glossary tag (forInKeys h tag) of
                     Inl er \<Rightarrow> Inl er
                   | Inr h' \<Rightarrow> storeTag h' this name tag))
      else storeTag h this name tag)"

text \<open>\<^verbatim>\<open>setTag(name, tag)\<close>, lines 194-196, and \<^verbatim>\<open>setScopeTag(scope)\<close>, lines 324-327.\<close>

definition setTag :: "env \<Rightarrow> heap \<Rightarrow> addr \<Rightarrow> string \<Rightarrow> val \<Rightarrow> error + heap" where
  "setTag e h this name tag = addTag e h this name tag"

definition setScopeTag :: "env \<Rightarrow> heap \<Rightarrow> addr \<Rightarrow> val \<Rightarrow> error + heap" where
  "setScopeTag e h this scope = setTag e h this ''scope'' scope"

subsection \<open>Diff and merge\<close>

text \<open>\<^verbatim>\<open>diff(box)\<close>, lines 237-239.\<close>

definition diff :: "env \<Rightarrow> heap \<Rightarrow> addr \<Rightarrow> val \<Rightarrow> change list option" where
  "diff e h this box = differ e h (getProperty h this ''_payload'') box"

text \<open>
  The loop of \<^verbatim>\<open>merge\<close>, lines 249-260: a record of kind \<^verbatim>\<open>D\<close> is skipped, every other is
  applied to \<^verbatim>\<open>this._payload\<close>.
\<close>

fun merge_loop :: "heap \<Rightarrow> addr \<Rightarrow> val \<Rightarrow> change list \<Rightarrow> error + heap" where
  "merge_loop h this box [] = Inr h"
| "merge_loop h this box (d # ds) =
     (if changeKind d = ''D'' then merge_loop h this box ds
      else (case applyChange h (getProperty h this ''_payload'') box d of
              Inl er \<Rightarrow> Inl er
            | Inr h' \<Rightarrow> merge_loop h' this box ds))"

text \<open>\<^verbatim>\<open>merge(box)\<close>, lines 246-263; the result is the new store and the Box returned.\<close>

definition merge :: "env \<Rightarrow> heap \<Rightarrow> addr \<Rightarrow> val \<Rightarrow> error + heap \<times> addr" where
  "merge e h this box =
     (case differ e h (getProperty h this ''_payload'') box of
        None \<Rightarrow> Inr (h, this)
      | Some ds \<Rightarrow>
          (case merge_loop h this box ds of
             Inl er \<Rightarrow> Inl er
           | Inr h' \<Rightarrow> Inr (h', this)))"

section \<open>Notions the properties are stated with\<close>

subsection \<open>Rewriting a glossary\<close>

text \<open>A value that is an object, not a primitive.\<close>

definition isRef :: "val \<Rightarrow> bool" where
  "isRef v = (case v of Ref a \<Rightarrow> True | _ \<Rightarrow> False)"

text \<open>
  What the spec says of one entry of a new glossary: a value that is a key of the existing
  glossary is rewritten to that key's value there, any other value is kept.
\<close>

definition translate :: "env \<Rightarrow> heap \<Rightarrow> val \<Rightarrow> val \<Rightarrow> val" where
  "translate e h glossary v =
     (if hasOwn h glossary (toStr e h v) then readProp h glossary (toStr e h v) else v)"

text \<open>The entries of a mapping, those named in \<open>S\<close> rewritten.\<close>

definition translated :: "env \<Rightarrow> heap \<Rightarrow> val \<Rightarrow> string set \<Rightarrow> (string \<times> val) list \<Rightarrow> (string \<times> val) list" where
  "translated e h glossary S ps = map (\<lambda>(w, v). (w, if w \<in> S then translate e h glossary v else v)) ps"

subsection \<open>Applying change records\<close>



subsection \<open>Trees and deep equality\<close>

text \<open>
  The tree a value unfolds to: a primitive, or an object with its kind and the trees of
  its properties in order. Two values are deep-equal when they read as the same tree.
\<close>

datatype tree = TPrim val | TObj okind "(string \<times> tree) list"


text \<open>The tree without the properties whose value is \<^verbatim>\<open>undefined\<close>, at every level.\<close>

fun strip_undef :: "tree \<Rightarrow> tree" where
  "strip_undef (TPrim v) = TPrim v"
| "strip_undef (TObj k chs) =
     TObj k (map (\<lambda>(key, t). (key, strip_undef t)) (filter (\<lambda>(key, t). t \<noteq> TPrim Undefined) chs))"


text \<open>The children of a stripped object.\<close>

definition strip_children :: "(string \<times> tree) list \<Rightarrow> (string \<times> tree) list" where
  "strip_children chs =
     map (\<lambda>(key, t). (key, strip_undef t)) (filter (\<lambda>(key, t). t \<noteq> TPrim Undefined) chs)"




section \<open>Concrete stores\<close>

text \<open>An environment for concrete runs: every object prints as a plain object does.\<close>

definition plain_env :: env where
  "plain_env =
     \<lparr>objToString = (\<lambda>h a. ''[object Object]''), strIsZero = (\<lambda>s. s = []),
      differ = (\<lambda>h a b. None)\<rparr>"

text \<open>
  The spec's example of scoped access: payload \<^verbatim>\<open>{a:{b:{c:100}}}\<close>, tags \<^verbatim>\<open>{scope: "a.b"}\<close>,
  the Box at address 4.
\<close>

definition scope_store :: heap where
  "scope_store =
     [\<lparr>kind = Plain, props = [(''c'', Num 100)]\<rparr>,
      \<lparr>kind = Plain, props = [(''b'', Ref 0)]\<rparr>,
      \<lparr>kind = Plain, props = [(''a'', Ref 1)]\<rparr>,
      \<lparr>kind = Plain, props = [(''scope'', Str ''a.b'')]\<rparr>,
      \<lparr>kind = Instance, props = boxFields ''s1'' (Ref 2) (Ref 3)\<rparr>]"

text \<open>A Box (address 2) over the payload \<^verbatim>\<open>{zero: 0, one: 1}\<close>, no tags.\<close>

definition falsy_store :: heap where
  "falsy_store =
     [\<lparr>kind = Plain, props = [(''zero'', Num 0), (''one'', Num 1)]\<rparr>,
      \<lparr>kind = Plain, props = []\<rparr>,
      \<lparr>kind = Instance, props = boxFields ''s1'' (Ref 0) (Ref 1)\<rparr>]"

text \<open>
  A Box (address 3) whose glossary is \<^verbatim>\<open>{x: "y"}\<close>, and at address 4 a new glossary
  \<^verbatim>\<open>{w: "x", u: "q"}\<close>.
\<close>

definition glossary_store :: heap where
  "glossary_store =
     [\<lparr>kind = Plain, props = []\<rparr>,
      \<lparr>kind = Plain, props = [(''x'', Str ''y'')]\<rparr>,
      \<lparr>kind = Plain, props = [(''glossary'', Ref 1)]\<rparr>,
      \<lparr>kind = Instance, props = boxFields ''s1'' (Ref 0) (Ref 2)\<rparr>,
      \<lparr>kind = Plain, props = [(''w'', Str ''x''), (''u'', Str ''q'')]\<rparr>]"










text \<open>A Box (address 3) over \<^verbatim>\<open>{a:{x:1}}\<close> with tags \<^verbatim>\<open>{scope: "a"}\<close>.\<close>

definition copy_store :: heap where
  "copy_store =
     [\<lparr>kind = Plain, props = [(''x'', Num 1)]\<rparr>,
      \<lparr>kind = Plain, props = [(''a'', Ref 0)]\<rparr>,
      \<lparr>kind = Plain, props = [(''scope'', Str ''a'')]\<rparr>,
      \<lparr>kind = Instance, props = boxFields ''s1'' (Ref 1) (Ref 2)\<rparr>]"

section \<open>Properties\<close>

lemmas store_defs = alloc_def emptyObj_def objAt_def getProperty_def setProperty_def
  deleteProperty_def hasOwn_def readProp_def writeProp_def isNullish_def

lemmas box_defs = newBox_def boxFields_def isBox_def looseEqBox_def typeofObject_def
  extend_deep_def getTag_def getGlossaryTag_def storeTag_def addTag_def forInKeys_def
  payload_def

lemmas path_defs = pathMap_def elemToString_def toBoolean_def toStr_def scoped_def
  resolve_def pathToString_def pathTruthy_def objectPath_get_def objectPath_set_def
  objectPath_has_def objectPath_del_def getShallowProperty_def

subsection \<open>Path resolution through the glossary\<close>

text \<open>
  C1. The claim: \<^verbatim>\<open>pathMap\<close> replaces the i-th segment by the glossary's value stored under
  the dotted prefix of the first i segments whenever that prefix is a key. The code tests
  the prefix but reads \<^verbatim>\<open>glossary[keys[i]]\<close>, the value stored under the segment alone.
  A Box is built on an empty payload and given the glossary \<^verbatim>\<open>{"a.b": "z"}\<close>; the
  path \<^verbatim>\<open>a.b\<close> then resolves to \<^verbatim>\<open>a.\<close> (the prefix \<^verbatim>\<open>a.b\<close> is a key, \<^verbatim>\<open>glossary["b"]\<close> is
  \<^verbatim>\<open>undefined\<close>, which joins as the empty string), where the claim gives \<^verbatim>\<open>a.z\<close>.
\<close>

theorem pathMap_reads_segment_not_prefix:
  "\<exists>h b h'.
     newBox e ''id'' 1
       [\<lparr>kind = Plain, props = []\<rparr>, \<lparr>kind = Plain, props = [(''a.b'', Str ''z'')]\<rparr>]
       (Ref 0) Undefined = Some (h, b)
     \<and> addTag e h b ''glossary'' (Ref 1) = Inr h'
     \<and> pathMap e h' b (PStr ''a.b'') = Inr ''a.''"
  by (simp add: store_defs box_defs path_defs)

subsection \<open>Construction\<close>

text \<open>
  C2. The claim: for every scalar content, \<^verbatim>\<open>null\<close> included, the constructor sets the
  payload to \<^verbatim>\<open>{ _v: content }\<close>. For \<^verbatim>\<open>null\<close> the test \<^verbatim>\<open>typeof content === 'object'\<close>
  holds, so the second branch runs: the payload stays \<^verbatim>\<open>null\<close>, a bare scalar, and
  \<^verbatim>\<open>get('_v')\<close> gives \<^verbatim>\<open>undefined\<close>, not \<^verbatim>\<open>null\<close>.
\<close>

theorem newBox_null_payload_not_wrapped:
  "\<exists>h b. newBox e sid n [] Null Undefined = Some (h, b)
     \<and> payload h b = Null
     \<and> get e h b (PStr ''_v'') = Inr Undefined"
  by (simp add: store_defs box_defs path_defs get_def)

text \<open>
  C3. The claim: constructing a Box from a container \<open>c\<close> gives a payload that does not
  alias \<open>c\<close>. The constructor assigns \<^verbatim>\<open>this._payload = content\<close> and then merges
  \<open>content\<close> into that same object, so the payload is \<open>c\<close> itself: with \<open>c\<close> the object
  \<^verbatim>\<open>{a: 1}\<close> at address 0, the payload of the new Box is the reference to address 0, and
  \<^verbatim>\<open>box.set('b', 2)\<close> writes \<^verbatim>\<open>b\<close> into the caller's object.
\<close>

theorem newBox_payload_aliases_content:
  "\<exists>h b h'.
     newBox e sid n [\<lparr>kind = Plain, props = [(''a'', Num 1)]\<rparr>] (Ref 0) Undefined = Some (h, b)
     \<and> payload h b = Ref 0
     \<and> getProperty h 0 ''b'' = Undefined
     \<and> set_box e h b (PStr ''b'') (Num 2) = Inr h'
     \<and> getProperty h' 0 ''b'' = Num 2"
  by (simp add: store_defs box_defs path_defs set_box_def)

subsection \<open>Accessors\<close>

lemma split_dot_nonempty: "split_dot s \<noteq> []"
  by (induction s) (auto split: list.splits)

lemma get_segs_absent: "\<not> has_segs h ob ks \<Longrightarrow> get_segs h ob ks = Undefined"
proof (induction ks arbitrary: ob)
  case Nil
  then show ?case by simp
next
  case (Cons k ks)
  show ?case
  proof (cases "hasOwn h ob k")
    case False
    then show ?thesis by (simp add: getShallowProperty_def)
  next
    case True
    with Cons.prems have rest: "\<not> has_segs h (readProp h ob k) ks" by simp
    then have "ks \<noteq> []" by auto
    with True Cons.IH [OF rest] show ?thesis by (simp add: getShallowProperty_def)
  qed
qed

lemma objectPath_get_absent:
  "\<not> objectPath_has h ob r \<Longrightarrow> r \<noteq> [] \<Longrightarrow> objectPath_get h ob r = Undefined"
  by (simp add: objectPath_get_def objectPath_has_def get_segs_absent)

text \<open>
  C10. \<^verbatim>\<open>get(path)\<close> raises the invalid-path error for every falsy path, the empty string
  and the number 0 as well as \<^verbatim>\<open>null\<close> and \<^verbatim>\<open>undefined\<close>, and for no other path: the
  guard is \<^verbatim>\<open>if (!path)\<close>.
\<close>

theorem get_invalid_path_iff_falsy:
  "(get e h this p = Inl InvalidPath)
     = (p = PUndefined \<or> p = PNull \<or> p = PBool False \<or> p = PNum 0 \<or> p = PStr [])"
  by (cases p)
    (auto simp: get_def pathTruthy_def resolve_def scoped_def pathMap_def getTag_def
       getGlossaryTag_def split: sum.splits if_splits)

text \<open>
  C8. \<^verbatim>\<open>get\<close> with a \<^verbatim>\<open>null\<close> or \<^verbatim>\<open>undefined\<close> path raises the invalid-path error whatever
  the store holds (the guard is the first statement, nothing of the Box is read); \<^verbatim>\<open>get\<close>
  on a path that is accepted, resolves to a non-empty dotted path \<open>r\<close> and does not exist
  in the payload returns \<^verbatim>\<open>undefined\<close>.
\<close>

theorem get_null_fails_missing_undefined:
  "get e h this PNull = Inl InvalidPath \<and> get e h this PUndefined = Inl InvalidPath \<and>
   (pathTruthy p \<and> resolve e h this p = Inr r \<and> r \<noteq> []
      \<and> \<not> objectPath_has h (payload h this) r
    \<longrightarrow> get e h this p = Inr Undefined)"
  by (simp add: get_def pathTruthy_def payload_def objectPath_get_absent)

lemma scope_store_tag: "getTag scope_store 4 ''scope'' = Inr (Str ''a.b'')"
  by (simp add: scope_store_def boxFields_def store_defs getTag_def)

lemma scope_store_resolve:
  "resolve e scope_store 4 (PStr p) = pathMap e scope_store 4 (PStr (''a.b.'' @ p))"
  by (simp add: resolve_def scoped_def scope_store_tag toBoolean_def toStr_def
      pathToString_def)

lemma scope_store_pathMap:
  "pathMap e scope_store 4 (PStr ''a.b.c'') = Inr ''a.b.c''"
  "pathMap e scope_store 4 (PStr ''a.b.d'') = Inr ''a.b.d''"
  by (simp_all add: scope_store_def boxFields_def store_defs box_defs path_defs)

theorem get_null_fails_missing_undefined_witness:
  "pathTruthy (PStr ''d'') \<and> resolve plain_env scope_store 4 (PStr ''d'') = Inr ''a.b.d''
     \<and> ''a.b.d'' \<noteq> [] \<and> \<not> objectPath_has scope_store (payload scope_store 4) ''a.b.d''
     \<and> get plain_env scope_store 4 (PStr ''d'') = Inr Undefined"
proof -
  have t: "pathTruthy (PStr ''d'')" by (simp add: pathTruthy_def)
  have r: "resolve plain_env scope_store 4 (PStr ''d'') = Inr ''a.b.d''"
    by (simp add: scope_store_resolve scope_store_pathMap)
  have a: "\<not> objectPath_has scope_store (payload scope_store 4) ''a.b.d''"
    by (simp add: scope_store_def boxFields_def store_defs payload_def objectPath_has_def)
  from get_null_fails_missing_undefined
         [of plain_env scope_store 4 "PStr ''d''" "''a.b.d''"] t r a
  show ?thesis by simp
qed



text \<open>
  C6. \<^verbatim>\<open>has(path)\<close> is \<^verbatim>\<open>!!v && v != false\<close> for the value \<open>v\<close> at the resolved path. So
  it is false when \<open>v\<close> is 0, the empty string, \<^verbatim>\<open>false\<close>, \<^verbatim>\<open>null\<close> or \<^verbatim>\<open>undefined\<close>, and
  when the path is absent.
\<close>

theorem has_is_truthy_and_not_false:
  assumes "resolve e h this path = Inr r"
  shows "has e h this path
           = Inr (toBoolean (objectPath_get h (payload h this) r)
                  \<and> \<not> looseEqFalse e h (objectPath_get h (payload h this) r))
       \<and> (objectPath_get h (payload h this) r \<in> {Num 0, Str [], Bool False, Undefined, Null}
            \<longrightarrow> has e h this path = Inr False)
       \<and> (r \<noteq> [] \<and> \<not> objectPath_has h (payload h this) r \<longrightarrow> has e h this path = Inr False)"
  using assms objectPath_get_absent [of h "payload h this" r]
  by (auto simp: has_def payload_def toBoolean_def)

theorem has_is_truthy_and_not_false_witness:
  "resolve plain_env falsy_store 2 (PStr ''zero'') = Inr ''zero''
     \<and> objectPath_get falsy_store (payload falsy_store 2) ''zero'' = Num 0
     \<and> has plain_env falsy_store 2 (PStr ''zero'') = Inr False
     \<and> has plain_env falsy_store 2 (PStr ''one'') = Inr True"
proof -
  have r: "resolve plain_env falsy_store 2 (PStr ''zero'') = Inr ''zero''"
    by (simp add: falsy_store_def boxFields_def store_defs box_defs path_defs)
  have v: "objectPath_get falsy_store (payload falsy_store 2) ''zero'' = Num 0"
    by (simp add: falsy_store_def boxFields_def store_defs box_defs path_defs)
  have o: "has plain_env falsy_store 2 (PStr ''one'') = Inr True"
    by (simp add: falsy_store_def boxFields_def store_defs box_defs path_defs has_def
        looseEqFalse_def)
  from has_is_truthy_and_not_false [OF r] v
  have "has plain_env falsy_store 2 (PStr ''zero'') = Inr False" by (simp add: toBoolean_def)
  with r v o show ?thesis by simp
qed

subsection \<open>Layered glossaries\<close>

lemma toStr_prim: "\<not> isRef v \<Longrightarrow> toStr e h' v = toStr e h v"
  by (cases v) (simp_all add: toStr_def isRef_def)

lemma translate_same:
  assumes "objAt h' g = objAt h g" and "\<not> isRef v"
  shows "translate e h' (Ref g) v = translate e h (Ref g) v"
  using assms toStr_prim [of v e h' h]
  by (simp add: translate_def hasOwn_def readProp_def getProperty_def)

lemma update_distinct_map:
  "distinct (map fst ps) \<Longrightarrow> k \<in> fst ` set ps \<Longrightarrow>
   AList.update k x ps = map (\<lambda>(k', v'). (k', if k' = k then x else v')) ps"
proof (induction ps)
  case Nil
  then show ?case by simp
next
  case (Cons p ps)
  show ?case
  proof (cases "fst p = k")
    case True
    with Cons.prems have "k \<notin> fst ` set ps" by auto
    then have "map (\<lambda>(k', v'). (k', if k' = k then x else v')) ps = ps"
      by (induction ps) auto
    with True show ?thesis by (cases p) simp
  next
    case False
    with Cons show ?thesis by (cases p) auto
  qed
qed

lemma keys_update: "k \<in> fst ` set ps \<Longrightarrow> map fst (AList.update k x ps) = map fst ps"
  by (induction ps) auto

lemma addTag_loop_translates:
  assumes "t < length h" and "t \<noteq> g"
    and "distinct (map fst (props (h ! t)))"
    and "set ws \<subseteq> fst ` set (props (h ! t))"
    and "distinct ws"
    and "\<forall>(w, v) \<in> set (props (h ! t)). w \<in> set ws \<longrightarrow> \<not> isRef v"
  shows "addTag_loop e h (Ref g) (Ref t) ws
           = Inr (h[t := (h ! t)\<lparr>props := translated e h (Ref g) (set ws) (props (h ! t))\<rparr>])"
  using assms
proof (induction ws arbitrary: h)
  case Nil
  have "translated e h (Ref g) {} (props (h ! t)) = props (h ! t)"
    by (induction "props (h ! t)") (auto simp: translated_def)
  then show ?case by simp
next
  case (Cons w ws)
  let ?ps = "props (h ! t)"
  let ?v = "getProperty h t w"
  from Cons.prems have wk: "w \<in> fst ` set ?ps" by simp
  then obtain v0 where mem: "(w, v0) \<in> set ?ps" by auto
  with Cons.prems(3) have mo: "map_of ?ps w = Some v0" by simp
  with Cons.prems(1) have v: "?v = v0" by (simp add: getProperty_def objAt_def)
  from mem Cons.prems(6) have nr: "\<not> isRef ?v" using v by auto
  have rp: "readProp h (Ref t) w = ?v" by (simp add: readProp_def)
  have uniq: "\<And>v'. (w, v') \<in> set ?ps \<Longrightarrow> v' = ?v"
    using Cons.prems(3) mo v by (metis map_of_is_SomeI option.inject)
  show ?case
  proof (cases "hasOwn h (Ref g) (toStr e h ?v)")
    case True
    let ?x = "readProp h (Ref g) (toStr e h ?v)"
    let ?h1 = "setProperty h t w ?x"
    have tr: "translate e h (Ref g) ?v = ?x" using True by (simp add: translate_def)
    have len: "length ?h1 = length h" by (simp add: setProperty_def)
    have at: "?h1 ! t = (h ! t)\<lparr>props := AList.update w ?x ?ps\<rparr>"
      using Cons.prems(1) by (simp add: setProperty_def)
    have upd: "AList.update w ?x ?ps = map (\<lambda>(k', v'). (k', if k' = w then ?x else v')) ?ps"
      using update_distinct_map [OF Cons.prems(3) wk] .
    have og: "objAt ?h1 g = objAt h g"
      using Cons.prems(2) by (simp add: objAt_def setProperty_def)
    have p1: "t < length ?h1" using Cons.prems(1) len by simp
    have p3: "distinct (map fst (props (?h1 ! t)))"
      using Cons.prems(3) wk by (simp add: at keys_update)
    have p4: "set ws \<subseteq> fst ` set (props (?h1 ! t))"
    proof -
      have "fst ` set (props (?h1 ! t)) = set (map fst (AList.update w ?x ?ps))" by (simp add: at)
      also have "\<dots> = fst ` set ?ps" using wk by (simp add: keys_update)
      finally show ?thesis using Cons.prems(4) by simp
    qed
    have p5: "distinct ws" using Cons.prems(5) by simp
    have wn: "w \<notin> set ws" using Cons.prems(5) by simp
    have p6: "\<forall>(w', v') \<in> set (props (?h1 ! t)). w' \<in> set ws \<longrightarrow> \<not> isRef v'"
      using Cons.prems(6) wn by (fastforce simp: at upd split: if_splits)
    have ih: "addTag_loop e ?h1 (Ref g) (Ref t) ws
        = Inr (?h1[t := (?h1 ! t)\<lparr>props := translated e ?h1 (Ref g) (set ws) (props (?h1 ! t))\<rparr>])"
      by (rule Cons.IH [OF p1 Cons.prems(2) p3 p4 p5 p6])
    have eqp: "translated e ?h1 (Ref g) (set ws) (props (?h1 ! t))
                 = translated e h (Ref g) (set (w # ws)) ?ps"
    proof -
      have "\<forall>p \<in> set ?ps.
              (case (case p of (k', v') \<Rightarrow> (k', if k' = w then ?x else v')) of
                 (w', v') \<Rightarrow> (w', if w' \<in> set ws then translate e ?h1 (Ref g) v' else v'))
            = (case p of (w', v') \<Rightarrow> (w', if w' \<in> set (w # ws) then translate e h (Ref g) v' else v'))"
      proof
        fix p assume pm: "p \<in> set ?ps"
        obtain w' v' where p: "p = (w', v')" by (cases p)
        show "(case (case p of (k', v') \<Rightarrow> (k', if k' = w then ?x else v')) of
                 (w', v') \<Rightarrow> (w', if w' \<in> set ws then translate e ?h1 (Ref g) v' else v'))
            = (case p of (w', v') \<Rightarrow> (w', if w' \<in> set (w # ws) then translate e h (Ref g) v' else v'))"
        proof (cases "w' = w")
          case True
          with pm p uniq have "v' = ?v" by simp
          with True p wn tr show ?thesis by simp
        next
          case False
          show ?thesis
          proof (cases "w' \<in> set ws")
            case True
            with pm p Cons.prems(6) have "\<not> isRef v'" by auto
            from translate_same [OF og this] True False p show ?thesis by simp
          next
            case False
            with \<open>w' \<noteq> w\<close> p show ?thesis by simp
          qed
        qed
      qed
      then show ?thesis by (simp add: translated_def at upd)
    qed
    have "addTag_loop e h (Ref g) (Ref t) (w # ws) = addTag_loop e ?h1 (Ref g) (Ref t) ws"
      using True rp by (simp add: writeProp_def)
    also have "\<dots> = Inr (?h1[t := (h ! t)\<lparr>props := translated e h (Ref g) (set (w # ws)) ?ps\<rparr>])"
      using ih eqp by (simp add: at)
    also have "?h1[t := (h ! t)\<lparr>props := translated e h (Ref g) (set (w # ws)) ?ps\<rparr>]
             = h[t := (h ! t)\<lparr>props := translated e h (Ref g) (set (w # ws)) ?ps\<rparr>]"
      using Cons.prems(1) by (simp add: setProperty_def)
    finally show ?thesis .
  next
    case False
    have tr: "translate e h (Ref g) ?v = ?v" using False by (simp add: translate_def)
    have p4: "set ws \<subseteq> fst ` set ?ps" using Cons.prems(4) by simp
    have p5: "distinct ws" using Cons.prems(5) by simp
    have p6: "\<forall>(w', v') \<in> set ?ps. w' \<in> set ws \<longrightarrow> \<not> isRef v'"
      using Cons.prems(6) by auto
    have ih: "addTag_loop e h (Ref g) (Ref t) ws
        = Inr (h[t := (h ! t)\<lparr>props := translated e h (Ref g) (set ws) ?ps\<rparr>])"
      by (rule Cons.IH [OF Cons.prems(1) Cons.prems(2) Cons.prems(3) p4 p5 p6])
    have eqp: "translated e h (Ref g) (set ws) ?ps = translated e h (Ref g) (set (w # ws)) ?ps"
      unfolding translated_def
    proof (rule map_cong [OF refl])
      fix p assume pm: "p \<in> set ?ps"
      obtain w' v' where p: "p = (w', v')" by (cases p)
      show "(case p of (w', v') \<Rightarrow> (w', if w' \<in> set ws then translate e h (Ref g) v' else v'))
          = (case p of (w', v') \<Rightarrow> (w', if w' \<in> set (w # ws) then translate e h (Ref g) v' else v'))"
      proof (cases "w' = w")
        case True
        with pm p uniq have "v' = ?v" by simp
        with True p tr show ?thesis by simp
      next
        case False
        with p show ?thesis by simp
      qed
    qed
    have "addTag_loop e h (Ref g) (Ref t) (w # ws) = addTag_loop e h (Ref g) (Ref t) ws"
      using False rp by simp
    with ih eqp show ?thesis by simp
  qed
qed


lemma objAt_update_other: "a \<noteq> t \<Longrightarrow> objAt (h[t := x]) a = objAt h a"
  by (simp add: objAt_def)

lemma getProperty_update_other:
  "a \<noteq> t \<Longrightarrow> getProperty (h[t := x]) a k = getProperty h a k"
  by (simp add: getProperty_def objAt_update_other)

lemma translated_all:
  "fst ` set ps \<subseteq> S \<Longrightarrow>
   translated e h gl S ps = map (\<lambda>(w, v). (w, translate e h gl v)) ps"
  unfolding translated_def by (rule map_cong) auto

text \<open>
  C7. \<^verbatim>\<open>addTag('glossary', m)\<close> on a Box whose tag table is the object \<open>tg\<close>. When the table
  has no glossary, \<open>m\<close> is stored as it is and nothing else changes. When the glossary tag
  is the object \<open>g\<close> and \<open>m\<close> is another object \<open>t\<close> (with distinct property names, none
  of its values an object), every entry of \<open>m\<close> is rewritten in place by \<open>translate\<close>
  against the existing glossary, and the rewritten \<open>m\<close> is then stored as the glossary
  tag.
\<close>

theorem addTag_glossary_translates:
  assumes "getProperty h this ''_tags'' = Ref tg"
  shows "(\<not> hasOwn h (Ref tg) ''glossary''
            \<longrightarrow> addTag e h this ''glossary'' m = Inr (setProperty h tg ''glossary'' m))
       \<and> (getTag h this ''glossary'' = Inr (Ref g) \<and> t < length h \<and> t \<noteq> g
            \<and> distinct (map fst (props (h ! t)))
            \<and> (\<forall>(w, v) \<in> set (props (h ! t)). \<not> isRef v)
          \<longrightarrow> addTag e h this ''glossary'' (Ref t)
                = Inr (setProperty
                        (h[t := (h ! t)\<lparr>props :=
                                  map (\<lambda>(w, v). (w, translate e h (Ref g) v)) (props (h ! t))\<rparr>])
                        tg ''glossary'' (Ref t)))"
proof (intro conjI impI)
  assume "\<not> hasOwn h (Ref tg) ''glossary''"
  with assms show "addTag e h this ''glossary'' m = Inr (setProperty h tg ''glossary'' m)"
    by (simp add: addTag_def getGlossaryTag_def getTag_def isNullish_def toBoolean_def
        storeTag_def writeProp_def)
next
  assume a: "getTag h this ''glossary'' = Inr (Ref g) \<and> t < length h \<and> t \<noteq> g
            \<and> distinct (map fst (props (h ! t)))
            \<and> (\<forall>(w, v) \<in> set (props (h ! t)). \<not> isRef v)"
  let ?ps = "props (h ! t)"
  let ?h' = "h[t := (h ! t)\<lparr>props := map (\<lambda>(w, v). (w, translate e h (Ref g) v)) ?ps\<rparr>]"
  have ne: "t \<noteq> this"
  proof
    assume eq: "t = this"
    with a assms have "map_of ?ps ''_tags'' = Some (Ref tg)"
      by (simp add: getProperty_def objAt_def split: option.splits)
    then have "(''_tags'', Ref tg) \<in> set ?ps" by (rule map_of_SomeD)
    with a show False by (auto simp: isRef_def)
  qed
  have loop: "addTag_loop e h (Ref g) (Ref t) (map fst ?ps)
                = Inr (h[t := (h ! t)\<lparr>props := translated e h (Ref g) (set (map fst ?ps)) ?ps\<rparr>])"
    using a by (intro addTag_loop_translates) auto
  have "translated e h (Ref g) (set (map fst ?ps)) ?ps
          = map (\<lambda>(w, v). (w, translate e h (Ref g) v)) ?ps"
    by (rule translated_all) simp
  with loop have loop': "addTag_loop e h (Ref g) (Ref t) (map fst ?ps) = Inr ?h'" by simp
  have keys: "forInKeys h (Ref t) = map fst ?ps"
    using a by (simp add: forInKeys_def objAt_def)
  have tg': "getProperty ?h' this ''_tags'' = Ref tg"
    using assms ne by (simp add: getProperty_update_other)
  from a loop' keys tg' show "addTag e h this ''glossary'' (Ref t)
      = Inr (setProperty ?h' tg ''glossary'' (Ref t))"
    by (simp add: addTag_def getGlossaryTag_def toBoolean_def storeTag_def writeProp_def)
qed

theorem addTag_glossary_translates_witness:
  "getProperty glossary_store 3 ''_tags'' = Ref 2
   \<and> getTag glossary_store 3 ''glossary'' = Inr (Ref 1) \<and> (4::nat) < length glossary_store
   \<and> (4::nat) \<noteq> 1 \<and> distinct (map fst (props (glossary_store ! 4)))
   \<and> list_all (\<lambda>(w, v). \<not> isRef v) (props (glossary_store ! 4))
   \<and> addTag plain_env glossary_store 3 ''glossary'' (Ref 4)
       = Inr (glossary_store
               [4 := \<lparr>kind = Plain, props = [(''w'', Str ''y''), (''u'', Str ''q'')]\<rparr>,
                2 := \<lparr>kind = Plain, props = [(''glossary'', Ref 4)]\<rparr>])"
proof -
  have tg: "getProperty glossary_store 3 ''_tags'' = Ref 2"
    by (simp add: glossary_store_def boxFields_def store_defs)
  have pre: "getTag glossary_store 3 ''glossary'' = Inr (Ref 1) \<and> (4::nat) < length glossary_store
      \<and> (4::nat) \<noteq> 1 \<and> distinct (map fst (props (glossary_store ! 4)))
      \<and> (\<forall>(w, v) \<in> set (props (glossary_store ! 4)). \<not> isRef v)"
    by (simp add: glossary_store_def boxFields_def store_defs getTag_def isRef_def)
  have res: "setProperty
       (glossary_store[4 := (glossary_store ! 4)\<lparr>props :=
           map (\<lambda>(w, v). (w, translate plain_env glossary_store (Ref 1) v))
             (props (glossary_store ! 4))\<rparr>])
       2 ''glossary'' (Ref 4)
     = glossary_store
               [4 := \<lparr>kind = Plain, props = [(''w'', Str ''y''), (''u'', Str ''q'')]\<rparr>,
                2 := \<lparr>kind = Plain, props = [(''glossary'', Ref 4)]\<rparr>]"
    by (simp add: glossary_store_def store_defs translate_def toStr_def)
  from addTag_glossary_translates [OF tg, where g = 1 and t = 4 and e = plain_env] pre res
  show ?thesis using tg by (simp add: list_all_iff)
qed

subsection \<open>Merge\<close>
















subsection \<open>Copying a Box\<close>






















lemma strip_undef_TObj: "strip_undef (TObj k chs) = TObj k (strip_children chs)"
  by (simp add: strip_children_def)




















subsection \<open>Further properties of the code\<close>

lemma join_with_Cons_char:
  "join_with sep ((c # w) # ws) = c # join_with sep (w # ws)"
  by (cases ws) simp_all

lemma join_split_dot: "join_with ''.'' (split_dot s) = s"
proof (induction s)
  case Nil
  then show ?case by simp
next
  case (Cons c cs)
  obtain w ws where sp: "split_dot cs = w # ws"
    using split_dot_nonempty [of cs] by (cases "split_dot cs") auto
  with Cons show ?case by (simp add: join_with_Cons_char)
qed

lemma pathMap_loop_no_glossary:
  "\<not> toBoolean g \<Longrightarrow> pathMap_loop h g pre ks = map Str ks"
  by (induction ks arbitrary: pre) simp_all

lemma elemToString_Str: "map (elemToString e h \<circ> Str) ks = ks"
  by (induction ks) (simp_all add: elemToString_def isNullish_def toStr_def)

text \<open>
  Without a glossary tag (or with a falsy one) \<^verbatim>\<open>pathMap\<close> is the identity on a dotted
  string, and joins the segments of an array path.
\<close>

theorem pathMap_identity_without_glossary:
  assumes "getGlossaryTag h this = Inr g" and "\<not> toBoolean g"
  shows "pathMap e h this (PStr s) = Inr s \<and> pathMap e h this (PArr ks) = Inr (join_with ''.'' ks)"
  using assms
  by (simp add: pathMap_def pathMap_loop_no_glossary elemToString_Str join_split_dot)

theorem pathMap_identity_without_glossary_witness:
  "getGlossaryTag scope_store 4 = Inr Null \<and> \<not> toBoolean Null
   \<and> pathMap plain_env scope_store 4 (PStr ''a.b.c'') = Inr ''a.b.c''"
proof -
  have g: "getGlossaryTag scope_store 4 = Inr Null"
    by (simp add: scope_store_def boxFields_def store_defs getGlossaryTag_def getTag_def)
  have n: "\<not> toBoolean Null" by (simp add: toBoolean_def)
  from pathMap_identity_without_glossary [OF g n, of plain_env "''a.b.c''"] g n
  show ?thesis by simp
qed

text \<open>
  For every content that is neither an object nor \<^verbatim>\<open>null\<close> (\<^verbatim>\<open>undefined\<close>, a boolean, a
  number, a string) the constructor sets the payload to a fresh \<^verbatim>\<open>{ _v: content }\<close>, and
  \<^verbatim>\<open>get('_v')\<close> returns the content.
\<close>

theorem newBox_wraps_scalar:
  assumes "\<not> typeofObject v"
  shows "\<exists>h' b pa. newBox e sid n h v Undefined = Some (h', b) \<and> payload h' b = Ref pa
           \<and> h' ! pa = \<lparr>kind = Plain, props = [(''_v'', v)]\<rparr>
           \<and> get e h' b (PStr ''_v'') = Inr v"
  using assms
  by (cases v)
    (simp_all add: store_defs box_defs path_defs get_def nth_append)

theorem newBox_wraps_scalar_witness:
  "\<not> typeofObject (Num 7)
   \<and> (\<exists>h' b. newBox plain_env ''s1'' 0 [] (Num 7) Undefined = Some (h', b)
        \<and> get plain_env h' b (PStr ''_v'') = Inr (Num 7))"
proof -
  have t: "\<not> typeofObject (Num 7)" by (simp add: typeofObject_def)
  from newBox_wraps_scalar [OF t, of plain_env "''s1''" 0 "[]"] t show ?thesis by blast
qed

text \<open>
  The spec's example of glossary translation: with the glossary \<^verbatim>\<open>{x: "a"}\<close> and the
  payload \<^verbatim>\<open>{a: 5}\<close>, \<^verbatim>\<open>get('x')\<close> is 5. On a one-segment path the prefix is the segment.
\<close>

theorem glossary_translates_single_segment:
  "\<exists>h b h'.
     newBox e ''id'' 1
       [\<lparr>kind = Plain, props = [(''a'', Num 5)]\<rparr>, \<lparr>kind = Plain, props = [(''x'', Str ''a'')]\<rparr>]
       (Ref 0) Undefined = Some (h, b)
     \<and> addTag e h b ''glossary'' (Ref 1) = Inr h'
     \<and> get e h' b (PStr ''x'') = Inr (Num 5)"
  by (simp add: store_defs box_defs path_defs get_def)

text \<open>
  An array change is not of kind \<^verbatim>\<open>D\<close>, so \<^verbatim>\<open>merge\<close> applies it even when its item is a
  deletion: merging \<^verbatim>\<open>{xs: [1]}\<close> into a Box over \<^verbatim>\<open>{xs: [1, 2]}\<close>, the differ reporting
  the element at index 1 as deleted, removes that element from the Box's array.
\<close>

theorem merge_applies_array_deletion:
  "merge
     \<lparr>objToString = (\<lambda>h a. ''[object Object]''), strIsZero = (\<lambda>s. s = []),
      differ = (\<lambda>h a b. Some [DiffArray [PKey ''xs''] 1 (ItemDeleted (Num 2))])\<rparr>
     [\<lparr>kind = Array, props = [(''0'', Num 1), (''1'', Num 2)]\<rparr>,
      \<lparr>kind = Plain, props = [(''xs'', Ref 0)]\<rparr>,
      \<lparr>kind = Plain, props = []\<rparr>,
      \<lparr>kind = Instance, props = boxFields ''s1'' (Ref 1) (Ref 2)\<rparr>,
      \<lparr>kind = Array, props = [(''0'', Num 1)]\<rparr>,
      \<lparr>kind = Plain, props = [(''xs'', Ref 4)]\<rparr>]
     3 (Ref 5)
   = Inr ([\<lparr>kind = Array, props = [(''0'', Num 1)]\<rparr>,
           \<lparr>kind = Plain, props = [(''xs'', Ref 0)]\<rparr>,
           \<lparr>kind = Plain, props = []\<rparr>,
           \<lparr>kind = Instance, props = boxFields ''s1'' (Ref 1) (Ref 2)\<rparr>,
           \<lparr>kind = Array, props = [(''0'', Num 1)]\<rparr>,
           \<lparr>kind = Plain, props = [(''xs'', Ref 4)]\<rparr>], 3)"
  by code_simp

text \<open>
  Mutating a copy leaves the original alone: after \<^verbatim>\<open>c = new Box(b)\<close> on the Box of
  \<open>copy_store\<close>, \<^verbatim>\<open>c.set('a.x', 2)\<close> changes what \<open>c\<close> reads and not what \<open>b\<close> reads.
\<close>

theorem copy_set_leaves_original:
  "\<exists>h c h'. newBox plain_env ''s2'' 3 copy_store (Ref 3) Undefined = Some (h, c)
     \<and> set_box plain_env h c (PStr ''x'') (Num 2) = Inr h'
     \<and> get plain_env h' c (PStr ''x'') = Inr (Num 2)
     \<and> get plain_env h' 3 (PStr ''x'') = Inr (Num 1)"
  by (simp add: copy_store_def store_defs box_defs path_defs get_def set_box_def plain_env_def
      cloneTarget_def)

end
